theory Spec2Isabelle
  imports Main "HOL-Library.Sublist" "HOL-Library.AList"
begin

section \<open>JavaScript values, as far as the client reads them\<close>

text \<open>
  The client of \<^verbatim>\<open>frontend/src/lib/api.js\<close> is glue over \<^verbatim>\<open>fetch\<close> and
  \<^verbatim>\<open>WebSocket\<close>. Its functions are asynchronous but make one request each, so a call is
  modelled as a function from the environment (what \<^verbatim>\<open>fetch\<close> answers) to either the
  thrown error (\<open>Inl\<close>) or the returned value (\<open>Inr\<close>). Console output is left out of the
  HTTP part: no behaviour of the client depends on it.

  A string is held as the bytes of its UTF-8 text. Numbers are the integers; no fraction
  and no NaN reaches the paths modelled here.
\<close>

datatype js_error = JsError (err_name: string) (message: string)

datatype 'v response =
  Response (ok: bool) (content_type: "string option") (url: string) (json: "js_error + 'v")

datatype jsval =
    JUndefined
  | JNull
  | JBool bool
  | JNum int
  | JStr string
  | JArr "jsval list"
  | JObj "(string \<times> jsval) list"
  | JFun string nat
  | JObjectPrototype
  | JResponse "jsval response"

text \<open>
  \<open>JObj\<close> is a plain object (its prototype is \<open>Object.prototype\<close>), read by \<open>map_of\<close>.
  \<open>JFun name n\<close> is a built-in function of that name whose \<open>length\<close> is \<open>n\<close>;
  \<open>JObjectPrototype\<close> is the object \<open>Object.prototype\<close> itself; \<open>JResponse\<close> is a
  \<open>Response\<close> of \<^verbatim>\<open>fetch\<close>, of which \<open>json\<close> is the outcome of \<^verbatim>\<open>response.json()\<close>.
\<close>

fun truthy :: "jsval \<Rightarrow> bool" where
  "truthy JUndefined = False"
| "truthy JNull = False"
| "truthy (JBool b) = b"
| "truthy (JNum n) = (n \<noteq> 0)"
| "truthy (JStr s) = (s \<noteq> [])"
| "truthy _ = True"

fun isArray :: "jsval \<Rightarrow> bool" where
  "isArray (JArr xs) = True"
| "isArray _ = False"

text \<open>\<^verbatim>\<open>s.includes(sub)\<close>: \<open>sub\<close> occurs in \<open>s\<close> as a contiguous run.\<close>

fun String_includes :: "string \<Rightarrow> string \<Rightarrow> bool" where
  "String_includes [] sub = (sub = [])"
| "String_includes (c # cs) sub = (prefix sub (c # cs) \<or> String_includes cs sub)"

text \<open>
  \<open>Number_toString\<close> prints an integer in decimal, as JavaScript does for integers of
  magnitude below \<open>10^21\<close>; it is used for page numbers and limits in query strings and
  for numbers in error messages.
\<close>

fun decimal :: "nat \<Rightarrow> string" where
  "decimal n = (if n < 10 then [''0123456789'' ! n]
                else decimal (n div 10) @ [''0123456789'' ! (n mod 10)])"

declare decimal.simps [simp del]

definition Number_toString :: "int \<Rightarrow> string" where
  "Number_toString n = (if n < 0 then ''-'' @ decimal (nat (- n)) else decimal (nat n))"

text \<open>
  \<open>ToString\<close> of a value, as \<^verbatim>\<open>new Error(value)\<close> applies it. An array prints its
  elements joined by commas, \<open>null\<close> and \<open>undefined\<close> elements as nothing. A plain object
  prints through \<open>Object.prototype.toString\<close>, unless it has a property \<open>toString\<close> of its
  own: parsed JSON holds no function, so no conversion is left and a TypeError is thrown.
\<close>

definition cannot_convert :: js_error where
  "cannot_convert = JsError ''TypeError'' ''Cannot convert object to primitive value''"

fun ToString :: "jsval \<Rightarrow> js_error + string"
  and join_elements :: "jsval list \<Rightarrow> js_error + string" where
  "ToString JUndefined = Inr ''undefined''"
| "ToString JNull = Inr ''null''"
| "ToString (JBool b) = Inr (if b then ''true'' else ''false'')"
| "ToString (JNum n) = Inr (Number_toString n)"
| "ToString (JStr s) = Inr s"
| "ToString (JArr xs) = join_elements xs"
| "ToString (JObj kvs) =
     (if ''toString'' \<in> fst ` set kvs then Inl cannot_convert else Inr ''[object Object]'')"
| "ToString (JFun name n) = Inr (''function '' @ name @ ''() { [native code] }'')"
| "ToString JObjectPrototype = Inr ''[object Object]''"
| "ToString (JResponse r) = Inr ''[object Response]''"
| "join_elements [] = Inr []"
| "join_elements (x # xs) =
     (case (if x = JNull \<or> x = JUndefined then Inr [] else ToString x) of
        Inl e \<Rightarrow> Inl e
      | Inr s \<Rightarrow>
          (if xs = [] then Inr s
           else case join_elements xs of Inl e \<Rightarrow> Inl e | Inr t \<Rightarrow> Inr (s @ '','' @ t)))"

text \<open>
  The properties every plain object inherits from \<open>Object.prototype\<close>; the getter
  \<open>__proto__\<close> yields the prototype of a plain object, \<open>Object.prototype\<close>.
\<close>

definition object_prototype :: "(string \<times> jsval) list" where
  "object_prototype =
     [(''constructor'', JFun ''Object'' 1),
      (''__proto__'', JObjectPrototype),
      (''hasOwnProperty'', JFun ''hasOwnProperty'' 1),
      (''isPrototypeOf'', JFun ''isPrototypeOf'' 1),
      (''propertyIsEnumerable'', JFun ''propertyIsEnumerable'' 1),
      (''toLocaleString'', JFun ''toLocaleString'' 0),
      (''toString'', JFun ''toString'' 0),
      (''valueOf'', JFun ''valueOf'' 0),
      (''__defineGetter__'', JFun ''__defineGetter__'' 2),
      (''__defineSetter__'', JFun ''__defineSetter__'' 2),
      (''__lookupGetter__'', JFun ''__lookupGetter__'' 1),
      (''__lookupSetter__'', JFun ''__lookupSetter__'' 1)]"

definition or_undefined :: "jsval option \<Rightarrow> jsval" where
  "or_undefined r = (case r of None \<Rightarrow> JUndefined | Some v \<Rightarrow> v)"

text \<open>
  \<open>member obj k\<close> is \<^verbatim>\<open>obj[k]\<close> on a plain object, for every key: an own property first,
  then the prototype chain.
\<close>

definition member :: "(string \<times> jsval) list \<Rightarrow> string \<Rightarrow> jsval" where
  "member kvs k =
     (case map_of kvs k of
        Some v \<Rightarrow> v
      | None \<Rightarrow> or_undefined (map_of object_prototype k))"

definition cannot_read :: "string \<Rightarrow> string \<Rightarrow> js_error" where
  "cannot_read what k =
     JsError ''TypeError''
       (''Cannot read properties of '' @ what @ '' (reading '' @ [CHR 0x27] @ k @ [CHR 0x27] @ '')'')"

text \<open>
  The UTF-16 length of a string held as UTF-8: one unit for each code point, two for a
  code point of four bytes.
\<close>

definition utf16_length :: "string \<Rightarrow> nat" where
  "utf16_length s =
     length (filter (\<lambda>c. \<not> (128 \<le> (of_char c :: nat) \<and> (of_char c :: nat) < 192)) s)
     + length (filter (\<lambda>c. 240 \<le> (of_char c :: nat)) s)"

text \<open>
  \<open>get v k\<close> is the property read \<^verbatim>\<open>v.k\<close> for the four names the client reads from a
  value it does not know: \<open>error\<close>, \<open>url\<close>, \<open>communities\<close> and \<open>length\<close>. On a plain
  object it is \<open>member\<close>; reading from \<open>null\<close> or \<open>undefined\<close> throws (the text of the
  message is V8's). The prototypes of arrays, strings, numbers, booleans and functions
  define none of the four names, \<open>length\<close> set apart.
\<close>

fun get :: "jsval \<Rightarrow> string \<Rightarrow> js_error + jsval" where
  "get JUndefined k = Inl (cannot_read ''undefined'' k)"
| "get JNull k = Inl (cannot_read ''null'' k)"
| "get (JObj kvs) k = Inr (member kvs k)"
| "get (JArr xs) k = Inr (if k = ''length'' then JNum (int (length xs)) else JUndefined)"
| "get (JStr s) k = Inr (if k = ''length'' then JNum (int (utf16_length s)) else JUndefined)"
| "get (JFun name n) k = Inr (if k = ''length'' then JNum (int n) else JUndefined)"
| "get (JResponse r) k = Inr (if k = ''url'' then JStr (url r) else JUndefined)"
| "get v k = Inr JUndefined"

section \<open>The core request function\<close>

text \<open>
  A request body is either the text \<^verbatim>\<open>JSON.stringify\<close> made of a value, kept as the value,
  or a \<open>FormData\<close> with its entries (a file is named by a string).
\<close>

datatype body = JsonText jsval | FormData "(string \<times> string) list"

text \<open>
  The options bag handed to \<^verbatim>\<open>fetchAPI\<close> and on to \<^verbatim>\<open>fetch\<close>. An absent property is
  \<open>None\<close>; \<open>headers\<close> holds the properties of the headers object, none when it is absent.
\<close>

record request_init =
  http_method :: "string option"
  body :: "body option"
  headers :: "(string \<times> string) list"
  credentials :: "string option"
  mode :: "string option"

record runtime =
  NEXT_PUBLIC_API_URL :: "string option"
  fetch :: "string \<Rightarrow> request_init \<Rightarrow> js_error + jsval response"

definition API_URL :: "runtime \<Rightarrow> string" where
  "API_URL rt =
     (case NEXT_PUBLIC_API_URL rt of
        Some s \<Rightarrow> if s \<noteq> [] then s else ''http://localhost:8080''
      | None \<Rightarrow> ''http://localhost:8080'')"

definition isFormData :: "request_init \<Rightarrow> bool" where
  "isFormData options = (case body options of Some (FormData entries) \<Rightarrow> True | _ \<Rightarrow> False)"

definition defaultHeaders :: "request_init \<Rightarrow> (string \<times> string) list" where
  "defaultHeaders options =
     (if isFormData options then [] else [(''Content-Type'', ''application/json'')])"

text \<open>
  \<open>fetchOptions\<close> is the object literal of lines 15 to 23: the caller's options, then
  \<open>credentials\<close>, \<open>mode\<close> and \<open>headers\<close> written over them; in \<open>headers\<close> the caller's
  entries are spread over the defaults.
\<close>

definition fetchOptions :: "request_init \<Rightarrow> request_init" where
  "fetchOptions options =
     options\<lparr>credentials := Some ''include'',
             mode := Some ''cors'',
             headers := AList.merge (defaultHeaders options) (headers options)\<rparr>"

definition generic_error :: js_error where
  "generic_error = JsError ''Error'' ''An error occurred''"

text \<open>
  What \<^verbatim>\<open>fetchAPI\<close> makes of a response: the branch on the content type, the parsed body,
  and the error thrown for a status that is not ok. \<^verbatim>\<open>new Error(data.error || "An error
  occurred")\<close> reads \<open>data.error\<close> (which throws on \<open>null\<close>) and turns it into the message.
\<close>

definition api_error :: "jsval \<Rightarrow> js_error" where
  "api_error data =
     (case get data ''error'' of
        Inl e \<Rightarrow> e
      | Inr v \<Rightarrow>
          if truthy v then (case ToString v of Inl e \<Rightarrow> e | Inr s \<Rightarrow> JsError ''Error'' s)
          else generic_error)"

definition is_json :: "string option \<Rightarrow> bool" where
  "is_json contentType =
     (case contentType of None \<Rightarrow> False | Some s \<Rightarrow> s \<noteq> [] \<and> String_includes s ''application/json'')"

definition handle_response :: "jsval response \<Rightarrow> js_error + jsval" where
  "handle_response response =
     (if is_json (content_type response) then
        (case json response of
           Inl e \<Rightarrow> Inl e
         | Inr data \<Rightarrow> if \<not> ok response then Inl (api_error data) else Inr data)
      else if \<not> ok response then Inl generic_error
      else Inr (JResponse response))"

text \<open>
  The \<^verbatim>\<open>catch\<close> of \<^verbatim>\<open>fetchAPI\<close> logs and rethrows the error it caught, so every error of
  the \<^verbatim>\<open>try\<close> block is the error of the call.
\<close>

definition fetchAPI :: "runtime \<Rightarrow> string \<Rightarrow> request_init \<Rightarrow> js_error + jsval" where
  "fetchAPI rt endpoint options =
     (case fetch rt (API_URL rt @ endpoint) (fetchOptions options) of
        Inl e \<Rightarrow> Inl e
      | Inr response \<Rightarrow> handle_response response)"

section \<open>Building endpoints and options\<close>

text \<open>
  An identifier argument (a post, comment, community, user, notification, activity or
  event id) is used by the client only through its string form: in a template literal,
  as a property key and as the argument of \<^verbatim>\<open>parseInt\<close>. It is held as that string, so
  the number \<open>1\<close> and the string \<open>"1"\<close> are both \<open>''1''\<close>. Where the client tests an
  optional identifier for truth (\<^verbatim>\<open>userId ? a : b\<close>), \<open>None\<close> stands for a falsy argument
  and \<open>Some s\<close> for a truthy one of string form \<open>s\<close>. A page number or limit is a number,
  \<open>None\<close> when the argument is omitted and the parameter default applies.
\<close>

definition or_default :: "'a \<Rightarrow> 'a option \<Rightarrow> 'a" where
  "or_default d arg = (case arg of None \<Rightarrow> d | Some v \<Rightarrow> v)"

definition hex_byte :: "char \<Rightarrow> string" where
  "hex_byte c =
     [''0123456789ABCDEF'' ! ((of_char c :: nat) div 16),
      ''0123456789ABCDEF'' ! ((of_char c :: nat) mod 16)]"

definition alphanumeric :: string where
  "alphanumeric = ''ABCDEFGHIJKLMNOPQRSTUVWXYZabcdefghijklmnopqrstuvwxyz0123456789''"

text \<open>
  \<^verbatim>\<open>encodeURIComponent\<close> escapes every byte of the UTF-8 text but the letters, the digits
  and \<^verbatim>\<open>- _ . ! ~ * ' ( )\<close>.
\<close>

definition encodeURIComponent :: "string \<Rightarrow> string" where
  "encodeURIComponent s =
     concat (map (\<lambda>c. if c \<in> set (alphanumeric @ ''-_.!~*()'' @ [CHR 0x27]) then [c]
                       else CHR ''%'' # hex_byte c) s)"

text \<open>
  \<^verbatim>\<open>URLSearchParams\<close> prints a name or a value in the form-urlencoded way: a space as
  \<open>+\<close>, the letters, the digits and \<^verbatim>\<open>* - . _\<close> as they are, every other byte escaped.
\<close>

definition form_urlencode :: "string \<Rightarrow> string" where
  "form_urlencode s =
     concat (map (\<lambda>c. if c = CHR '' '' then ''+''
                       else if c \<in> set (alphanumeric @ ''*-._'') then [c]
                       else CHR ''%'' # hex_byte c) s)"

fun join_with :: "string \<Rightarrow> string list \<Rightarrow> string" where
  "join_with sep [] = []"
| "join_with sep [x] = x"
| "join_with sep (x # y # ys) = x @ sep @ join_with sep (y # ys)"

definition searchParams_toString :: "(string \<times> string) list \<Rightarrow> string" where
  "searchParams_toString ps =
     join_with ''&'' (map (\<lambda>(k, v). form_urlencode k @ ''='' @ form_urlencode v) ps)"

definition no_options :: request_init where
  "no_options =
     \<lparr>http_method = None, body = None, headers = [], credentials = None, mode = None\<rparr>"

definition with_method :: "string \<Rightarrow> request_init" where
  "with_method m = no_options\<lparr>http_method := Some m\<rparr>"

text \<open>\<^verbatim>\<open>JSON.stringify\<close> yields \<open>undefined\<close>, not a text, for \<open>undefined\<close> and for a function.\<close>

fun JSON_stringify :: "jsval \<Rightarrow> body option" where
  "JSON_stringify JUndefined = None"
| "JSON_stringify (JFun name n) = None"
| "JSON_stringify v = Some (JsonText v)"

definition with_json :: "string \<Rightarrow> jsval \<Rightarrow> request_init" where
  "with_json m v = no_options\<lparr>http_method := Some m, body := JSON_stringify v\<rparr>"

definition page_query :: "int \<Rightarrow> int \<Rightarrow> string" where
  "page_query p l = ''?page='' @ Number_toString p @ ''&limit='' @ Number_toString l"

section \<open>Mock data\<close>

definition mockCommunities :: "(string \<times> jsval) list list" where
  "mockCommunities =
     [[(''id'', JNum 1),
       (''title'', JStr ''Cancer Survivors Support''),
       (''category'', JStr ''Support Groups''),
       (''member_count'', JNum 1247),
       (''description'',
          JStr ''A supportive community for cancer survivors sharing experiences and hope.''),
       (''created_at'', JStr ''2024-01-15T10:00:00Z''),
       (''members'', JArr [])],
      [(''id'', JNum 2),
       (''title'', JStr ''Nutrition & Wellness''),
       (''category'', JStr ''Health & Wellness''),
       (''member_count'', JNum 892),
       (''description'',
          JStr ''Sharing healthy recipes and wellness tips for cancer patients and survivors.''),
       (''created_at'', JStr ''2024-02-01T14:30:00Z''),
       (''members'', JArr [])],
      [(''id'', JNum 3),
       (''title'', JStr ''Caregivers Circle''),
       (''category'', JStr ''Caregivers''),
       (''member_count'', JNum 634),
       (''description'', JStr ''Support and resources for family members and caregivers.''),
       (''created_at'', JStr ''2024-01-20T09:15:00Z''),
       (''members'', JArr [])],
      [(''id'', JNum 4),
       (''title'', JStr ''Mental Health & Mindfulness''),
       (''category'', JStr ''Mental Health''),
       (''member_count'', JNum 756),
       (''description'',
          JStr ''Focusing on mental wellness, meditation, and emotional support.''),
       (''created_at'', JStr ''2024-02-10T16:45:00Z''),
       (''members'', JArr [])],
      [(''id'', JNum 5),
       (''title'', JStr ''Treatment Updates''),
       (''category'', JStr ''Medical''),
       (''member_count'', JNum 423),
       (''description'',
          JStr ''Latest treatment options and medical breakthroughs discussion.''),
       (''created_at'', JStr ''2024-02-15T11:20:00Z''),
       (''members'', JArr [])]]"

text \<open>The three emoji of the mock posts, as their UTF-8 bytes.\<close>

definition party_popper :: string where
  "party_popper = [CHR 0xF0, CHR 0x9F, CHR 0x8E, CHR 0x89]"

definition cup_with_straw :: string where
  "cup_with_straw = [CHR 0xF0, CHR 0x9F, CHR 0xA5, CHR 0xA4]"

definition red_heart :: string where
  "red_heart = [CHR 0xE2, CHR 0x9D, CHR 0xA4, CHR 0xEF, CHR 0xB8, CHR 0x8F]"

definition mock_post_101 :: jsval where
  "mock_post_101 =
     JObj [(''id'', JNum 101),
           (''content'',
              JStr (''Just wanted to share that I completed my 6-month check-up today and ''
                @ ''everything looks great! '' @ party_popper
                @ '' To anyone going through treatment right now - there is hope and light ''
                @ ''at the end of the tunnel.'')),
           (''author_id'', JNum 1),
           (''author_name'', JStr ''Sarah Johnson''),
           (''author_avatar'', JNull),
           (''community_id'', JNum 1),
           (''category'', JStr ''Support''),
           (''created_at'', JStr ''2024-02-20T14:30:00Z''),
           (''likes_count'', JNum 24),
           (''comments_count'', JNum 8)]"

definition mock_post_102 :: jsval where
  "mock_post_102 =
     JObj [(''id'', JNum 102),
           (''content'',
              JStr (''Found this amazing anti-inflammatory smoothie recipe that'' @ [CHR 0x27]
                @ ''s been helping with my energy levels during treatment. Green tea, ''
                @ ''spinach, pineapple, and ginger - tastes better than it sounds! ''
                @ cup_with_straw)),
           (''author_id'', JNum 2),
           (''author_name'', JStr ''Mike Chen''),
           (''author_avatar'', JNull),
           (''community_id'', JNum 2),
           (''category'', JStr ''Nutrition''),
           (''created_at'', JStr ''2024-02-19T10:15:00Z''),
           (''likes_count'', JNum 18),
           (''comments_count'', JNum 5)]"

definition mock_post_103 :: jsval where
  "mock_post_103 =
     JObj [(''id'', JNum 103),
           (''content'',
              JStr (''As a caregiver, I'' @ [CHR 0x27]
                @ ''ve learned that taking care of yourself isn'' @ [CHR 0x27]
                @ ''t selfish - it'' @ [CHR 0x27]
                @ ''s necessary. Remember to take breaks, ask for help, and be kind to ''
                @ ''yourself. You'' @ [CHR 0x27] @ ''re doing an amazing job. '' @ red_heart)),
           (''author_id'', JNum 3),
           (''author_name'', JStr ''Lisa Rodriguez''),
           (''author_avatar'', JNull),
           (''community_id'', JNum 3),
           (''category'', JStr ''Caregiving''),
           (''created_at'', JStr ''2024-02-18T16:45:00Z''),
           (''likes_count'', JNum 31),
           (''comments_count'', JNum 12)]"

text \<open>The keys \<open>1\<close>, \<open>2\<close> and \<open>3\<close> of the object literal are the property names of those texts.\<close>

definition mockCommunityPosts :: "(string \<times> jsval) list" where
  "mockCommunityPosts =
     [(''1'', JArr [mock_post_101]),
      (''2'', JArr [mock_post_102]),
      (''3'', JArr [mock_post_103])]"

section \<open>parseInt\<close>

text \<open>
  \<^verbatim>\<open>parseInt(s)\<close> with no radix: leading white space is skipped, a sign is read, a prefix
  \<open>0x\<close> or \<open>0X\<close> selects radix 16, and the longest run of digits is the number; with no
  digit the result is NaN, here \<open>None\<close>. The result is the exact integer of the digits:
  rounding to a double does not change whether it equals a small integer.
\<close>

definition white1 :: "char \<Rightarrow> bool" where
  "white1 a = (a \<in> set [CHR 0x09, CHR 0x0A, CHR 0x0B, CHR 0x0C, CHR 0x0D, CHR 0x20])"

definition white2 :: "char \<Rightarrow> char \<Rightarrow> bool" where
  "white2 a b = (a = CHR 0xC2 \<and> b = CHR 0xA0)"

definition white3 :: "char \<Rightarrow> char \<Rightarrow> char \<Rightarrow> bool" where
  "white3 a b c =
     ((a = CHR 0xE1 \<and> b = CHR 0x9A \<and> c = CHR 0x80)
      \<or> (a = CHR 0xE2 \<and> b = CHR 0x80
          \<and> ((128 \<le> (of_char c :: nat) \<and> (of_char c :: nat) \<le> 138)
              \<or> c \<in> set [CHR 0xA8, CHR 0xA9, CHR 0xAF]))
      \<or> (a = CHR 0xE2 \<and> b = CHR 0x81 \<and> c = CHR 0x9F)
      \<or> (a = CHR 0xE3 \<and> b = CHR 0x80 \<and> c = CHR 0x80)
      \<or> (a = CHR 0xEF \<and> b = CHR 0xBB \<and> c = CHR 0xBF))"

fun skip_white :: "string \<Rightarrow> string" where
  "skip_white (a # b # c # s) =
     (if white1 a then skip_white (b # c # s)
      else if white2 a b then skip_white (c # s)
      else if white3 a b c then skip_white s
      else a # b # c # s)"
| "skip_white [a, b] =
     (if white1 a then skip_white [b] else if white2 a b then [] else [a, b])"
| "skip_white [a] = (if white1 a then [] else [a])"
| "skip_white [] = []"

definition digit_table :: "(char \<times> nat) list" where
  "digit_table =
     [(CHR ''0'', 0), (CHR ''1'', 1), (CHR ''2'', 2), (CHR ''3'', 3), (CHR ''4'', 4),
      (CHR ''5'', 5), (CHR ''6'', 6), (CHR ''7'', 7), (CHR ''8'', 8), (CHR ''9'', 9),
      (CHR ''a'', 10), (CHR ''b'', 11), (CHR ''c'', 12), (CHR ''d'', 13), (CHR ''e'', 14),
      (CHR ''f'', 15), (CHR ''A'', 10), (CHR ''B'', 11), (CHR ''C'', 12), (CHR ''D'', 13),
      (CHR ''E'', 14), (CHR ''F'', 15)]"

definition digit_of :: "nat \<Rightarrow> char \<Rightarrow> nat option" where
  "digit_of radix c =
     (case map_of digit_table c of
        Some d \<Rightarrow> if d < radix then Some d else None
      | None \<Rightarrow> None)"

definition is_digit :: "nat \<Rightarrow> char \<Rightarrow> bool" where
  "is_digit radix c = (digit_of radix c \<noteq> None)"

definition digits_value :: "nat \<Rightarrow> string \<Rightarrow> nat" where
  "digits_value radix z =
     foldl (\<lambda>acc c. acc * radix + (case digit_of radix c of Some d \<Rightarrow> d | None \<Rightarrow> 0)) 0 z"

definition parse_digits :: "int \<Rightarrow> nat \<Rightarrow> string \<Rightarrow> int option" where
  "parse_digits sign radix s =
     (let z = takeWhile (is_digit radix) s
      in if z = [] then None else Some (sign * int (digits_value radix z)))"

definition parse_unsigned :: "int \<Rightarrow> string \<Rightarrow> int option" where
  "parse_unsigned sign s =
     (if prefix ''0x'' s \<or> prefix ''0X'' s then parse_digits sign 16 (drop 2 s)
      else parse_digits sign 10 s)"

definition parseInt :: "string \<Rightarrow> int option" where
  "parseInt inputString =
     (case skip_white inputString of
        [] \<Rightarrow> None
      | c # s \<Rightarrow>
          if c = CHR ''-'' then parse_unsigned (- 1) s
          else if c = CHR ''+'' then parse_unsigned 1 s
          else parse_unsigned 1 (c # s))"

section \<open>The exported methods\<close>

text \<open>
  Every exported method builds one endpoint and one options bag, awaits \<^verbatim>\<open>fetchAPI\<close> on
  them, and then either hands the outcome on or works on it (a \<^verbatim>\<open>try\<close>/\<^verbatim>\<open>catch\<close>, the
  wrapping of a bare array). A call of a method is a value of the datatype of its group;
  \<open>request\<close> gives what the method passes to \<^verbatim>\<open>fetchAPI\<close>, \<open>respond\<close> what it does with
  the outcome.
\<close>

datatype auth_call =
    auth_register jsval
  | auth_login jsval
  | auth_logout
  | auth_getSession
  | auth_checkAuth

datatype posts_call =
    posts_getPosts "int option" "int option" "string option"
  | posts_getLikedPosts "int option" "int option"
  | posts_getCommentedPosts "int option" "int option"
  | posts_getSavedPosts "int option" "int option"
  | posts_createPost jsval
  | posts_updatePost jsval
  | posts_deletePost jsval
  | posts_getReactions string
  | posts_addReaction string jsval

datatype comments_call =
    comments_getPostComments string "int option" "int option" "string option"
  | comments_createComment string jsval
  | comments_updateComment string jsval
  | comments_deleteComment string
  | comments_getReactions string
  | comments_addReaction string jsval

datatype communities_call =
    communities_getCommunities
  | communities_getAll
  | communities_createCommunity jsval
  | communities_getCommunity string
  | communities_updateCommunity string jsval
  | communities_deleteCommunity string
  | communities_joinCommunity string jsval
  | communities_leaveCommunity string
  | communities_inviteToCommunity string jsval
  | communities_updateMember string string jsval
  | communities_removeMember string string
  | communities_getPosts string "int option" "int option"
  | communities_createPost string jsval
  | communities_getEvents string
  | communities_createEvent string jsval
  | communities_respondToEvent string jsval

datatype users_call =
    users_getProfile "string option"
  | users_updateProfile jsval
  | users_updatePrivacy jsval
  | users_changePassword jsval jsval
  | users_deleteAccount jsval
  | users_getFollowers "string option"
  | users_getFollowing "string option"
  | users_getFollowCounts "string option"
  | users_getFollowStatus string
  | users_followUser string
  | users_unfollowUser string
  | users_cancelFollowRequest string
  | users_acceptFollowRequest string
  | users_getSuggestedUsers
  | users_getOnlineUsers
  | users_getAllUsers
  | users_acceptMessageRequest string

datatype messages_call =
    messages_getConversations
  | messages_getMessages string "int option" "int option"
  | messages_sendMessage string jsval
  | messages_markAsRead string
  | messages_getUnreadCount
  | messages_getCommunityMessages string "int option" "int option"
  | messages_sendCommunityMessage string jsval

datatype notifications_call =
    notifications_getNotifications "int option" "int option"
  | notifications_markAsRead string
  | notifications_markAllAsRead
  | notifications_getUnreadCount

text \<open>
  The \<open>params\<close> of the activity methods: \<open>page\<close> and \<open>limit\<close> (absent, or a number),
  \<open>types\<close> (absent is the empty list: both add nothing) and \<open>showHidden\<close>.
\<close>

record activity_params =
  params_page :: "int option"
  params_limit :: "int option"
  params_types :: "string list"
  params_showHidden :: bool

datatype activity_call =
    activity_getUserActivities "string option" activity_params
  | activity_getUserPosts "string option" activity_params
  | activity_hideActivity string
  | activity_unhideActivity string
  | activity_getActivitySettings
  | activity_updateActivitySettings jsval

datatype upload_call = upload_uploadFile string

datatype call =
    Auth auth_call
  | Posts posts_call
  | Comments comments_call
  | Communities communities_call
  | Users users_call
  | Messages messages_call
  | Notifications notifications_call
  | Activity activity_call
  | Upload upload_call

subsection \<open>What each method passes to fetchAPI\<close>

fun auth_request :: "auth_call \<Rightarrow> string \<times> request_init" where
  "auth_request (auth_register userData) = (''/api/auth/register'', with_json ''POST'' userData)"
| "auth_request (auth_login creds) = (''/api/auth/login'', with_json ''POST'' creds)"
| "auth_request auth_logout = (''/api/auth/logout'', with_method ''POST'')"
| "auth_request auth_getSession = (''/api/auth/session'', no_options)"
| "auth_request auth_checkAuth = (''/api/auth/session'', no_options)"

definition category_query :: "string option \<Rightarrow> string" where
  "category_query category =
     (case category of
        None \<Rightarrow> []
      | Some c \<Rightarrow> if c \<noteq> [] \<and> c \<noteq> ''all'' then ''&category='' @ encodeURIComponent c else [])"

fun posts_request :: "posts_call \<Rightarrow> string \<times> request_init" where
  "posts_request (posts_getPosts p l category) =
     (''/api/posts'' @ page_query (or_default 1 p) (or_default 10 l) @ category_query category,
      no_options)"
| "posts_request (posts_getLikedPosts p l) =
     (''/api/posts/liked'' @ page_query (or_default 1 p) (or_default 10 l), no_options)"
| "posts_request (posts_getCommentedPosts p l) =
     (''/api/posts/commented'' @ page_query (or_default 1 p) (or_default 10 l), no_options)"
| "posts_request (posts_getSavedPosts p l) =
     (''/api/posts/saved'' @ page_query (or_default 1 p) (or_default 10 l), no_options)"
| "posts_request (posts_createPost postData) = (''/api/posts'', with_json ''POST'' postData)"
| "posts_request (posts_updatePost postData) = (''/api/posts'', with_json ''PUT'' postData)"
| "posts_request (posts_deletePost postId) =
     (''/api/posts'', with_json ''DELETE'' (JObj [(''id'', postId)]))"
| "posts_request (posts_getReactions postId) =
     (''/api/posts/'' @ postId @ ''/reactions'', no_options)"
| "posts_request (posts_addReaction postId reactionType) =
     (''/api/posts/'' @ postId @ ''/reactions'',
      with_json ''POST'' (JObj [(''reaction_type'', reactionType)]))"

fun comments_request :: "comments_call \<Rightarrow> string \<times> request_init" where
  "comments_request (comments_getPostComments postId p l parentId) =
     (''/api/posts/'' @ postId @ ''/comments'' @ page_query (or_default 1 p) (or_default 20 l)
        @ (case parentId of None \<Rightarrow> [] | Some parent \<Rightarrow> ''&parentId='' @ parent),
      no_options)"
| "comments_request (comments_createComment postId commentData) =
     (''/api/posts/'' @ postId @ ''/comments'', with_json ''POST'' commentData)"
| "comments_request (comments_updateComment commentId commentData) =
     (''/api/comments/'' @ commentId, with_json ''PUT'' commentData)"
| "comments_request (comments_deleteComment commentId) =
     (''/api/comments/'' @ commentId, with_method ''DELETE'')"
| "comments_request (comments_getReactions commentId) =
     (''/api/comments/'' @ commentId @ ''/reactions'', no_options)"
| "comments_request (comments_addReaction commentId reactionType) =
     (''/api/comments/'' @ commentId @ ''/reactions'',
      with_json ''POST'' (JObj [(''reaction_type'', reactionType)]))"

text \<open>The default \<open>invitedBy = null\<close> of \<open>joinCommunity\<close> replaces an omitted argument.\<close>

fun communities_request :: "communities_call \<Rightarrow> string \<times> request_init" where
  "communities_request communities_getCommunities = (''/api/communities'', no_options)"
| "communities_request communities_getAll = (''/api/communities'', no_options)"
| "communities_request (communities_createCommunity communityData) =
     (''/api/communities'', with_json ''POST'' communityData)"
| "communities_request (communities_getCommunity communityId) =
     (''/api/communities/'' @ communityId, no_options)"
| "communities_request (communities_updateCommunity communityId communityData) =
     (''/api/communities/'' @ communityId, with_json ''PUT'' communityData)"
| "communities_request (communities_deleteCommunity communityId) =
     (''/api/communities/'' @ communityId, with_method ''DELETE'')"
| "communities_request (communities_joinCommunity communityId invitedBy) =
     (''/api/communities/'' @ communityId @ ''/join'',
      with_json ''POST''
        (JObj [(''invited_by'', if invitedBy = JUndefined then JNull else invitedBy)]))"
| "communities_request (communities_leaveCommunity communityId) =
     (''/api/communities/'' @ communityId @ ''/join'', with_method ''DELETE'')"
| "communities_request (communities_inviteToCommunity communityId userId) =
     (''/api/communities/'' @ communityId @ ''/invite'',
      with_json ''POST'' (JObj [(''user_id'', userId)]))"
| "communities_request (communities_updateMember communityId userId status) =
     (''/api/communities/'' @ communityId @ ''/members/'' @ userId,
      with_json ''PUT'' (JObj [(''status'', status)]))"
| "communities_request (communities_removeMember communityId userId) =
     (''/api/communities/'' @ communityId @ ''/members/'' @ userId, with_method ''DELETE'')"
| "communities_request (communities_getPosts communityId p l) =
     (''/api/communities/'' @ communityId @ ''/posts''
        @ page_query (or_default 1 p) (or_default 10 l),
      no_options)"
| "communities_request (communities_createPost communityId postData) =
     (''/api/communities/'' @ communityId @ ''/posts'', with_json ''POST'' postData)"
| "communities_request (communities_getEvents communityId) =
     (''/api/communities/'' @ communityId @ ''/events'', no_options)"
| "communities_request (communities_createEvent communityId eventData) =
     (''/api/communities/'' @ communityId @ ''/events'', with_json ''POST'' eventData)"
| "communities_request (communities_respondToEvent eventId response) =
     (''/api/communities/events/'' @ eventId @ ''/respond'',
      with_json ''POST'' (JObj [(''response'', response)]))"

definition for_user :: "string option \<Rightarrow> string \<Rightarrow> string" where
  "for_user userID name =
     (case userID of
        Some u \<Rightarrow> ''/api/users/'' @ u @ ''/'' @ name
      | None \<Rightarrow> ''/api/users/'' @ name)"

text \<open>
  The object literal \<open>users\<close> has the key \<open>getFollowers\<close> twice; the later one, with the
  optional user, is the method.
\<close>

fun users_request :: "users_call \<Rightarrow> string \<times> request_init" where
  "users_request (users_getProfile userId) = (for_user userId ''profile'', no_options)"
| "users_request (users_updateProfile profileData) =
     (''/api/users/profile'', with_json ''PUT'' profileData)"
| "users_request (users_updatePrivacy isPublic) =
     (''/api/users/profile/privacy'', with_json ''PUT'' (JObj [(''is_public'', isPublic)]))"
| "users_request (users_changePassword currentPassword newPassword) =
     (''/api/users/change-password'',
      with_json ''PUT''
        (JObj [(''current_password'', currentPassword), (''new_password'', newPassword)]))"
| "users_request (users_deleteAccount password) =
     (''/api/users/account'', with_json ''DELETE'' (JObj [(''password'', password)]))"
| "users_request (users_getFollowers userID) = (for_user userID ''followers'', no_options)"
| "users_request (users_getFollowing userID) = (for_user userID ''following'', no_options)"
| "users_request (users_getFollowCounts userID) = (for_user userID ''counts'', no_options)"
| "users_request (users_getFollowStatus userID) =
     (''/api/users/'' @ userID @ ''/follow-status'', no_options)"
| "users_request (users_followUser userID) =
     (''/api/users/'' @ userID @ ''/follow'', with_method ''POST'')"
| "users_request (users_unfollowUser userID) =
     (''/api/users/'' @ userID @ ''/follow'', with_method ''DELETE'')"
| "users_request (users_cancelFollowRequest userID) =
     (''/api/users/'' @ userID @ ''/follow-request'', with_method ''DELETE'')"
| "users_request (users_acceptFollowRequest userID) =
     (''/api/users/'' @ userID @ ''/accept-follow'', with_method ''POST'')"
| "users_request users_getSuggestedUsers = (''/api/users/suggested'', no_options)"
| "users_request users_getOnlineUsers = (''/api/users/online'', no_options)"
| "users_request users_getAllUsers = (''/api/users/all'', no_options)"
| "users_request (users_acceptMessageRequest requesterId) =
     (''/api/users/accept-message-request?requester_id='' @ requesterId, with_method ''POST'')"

fun messages_request :: "messages_call \<Rightarrow> string \<times> request_init" where
  "messages_request messages_getConversations = (''/api/messages/conversations'', no_options)"
| "messages_request (messages_getMessages userId p l) =
     (''/api/messages/'' @ userId @ page_query (or_default 1 p) (or_default 50 l), no_options)"
| "messages_request (messages_sendMessage userId content) =
     (''/api/messages/'' @ userId, with_json ''POST'' (JObj [(''content'', content)]))"
| "messages_request (messages_markAsRead userId) =
     (''/api/messages/'' @ userId @ ''/read'', with_method ''PUT'')"
| "messages_request messages_getUnreadCount = (''/api/messages/unread-count'', no_options)"
| "messages_request (messages_getCommunityMessages communityId p l) =
     (''/api/communities/'' @ communityId @ ''/messages''
        @ page_query (or_default 1 p) (or_default 50 l),
      no_options)"
| "messages_request (messages_sendCommunityMessage communityId content) =
     (''/api/communities/'' @ communityId @ ''/messages'',
      with_json ''POST'' (JObj [(''content'', content)]))"

fun notifications_request :: "notifications_call \<Rightarrow> string \<times> request_init" where
  "notifications_request (notifications_getNotifications p l) =
     (''/api/notifications?''
        @ searchParams_toString
            [(''page'', Number_toString (or_default 1 p)),
             (''limit'', Number_toString (or_default 20 l))],
      no_options)"
| "notifications_request (notifications_markAsRead notificationId) =
     (''/api/notifications/read?id='' @ notificationId, with_method ''PUT'')"
| "notifications_request notifications_markAllAsRead =
     (''/api/notifications/read-all'', with_method ''PUT'')"
| "notifications_request notifications_getUnreadCount =
     (''/api/notifications/unread-count'', no_options)"

definition number_param :: "string \<Rightarrow> int option \<Rightarrow> (string \<times> string) list" where
  "number_param name arg =
     (case arg of
        None \<Rightarrow> []
      | Some n \<Rightarrow> if n \<noteq> 0 then [(name, Number_toString n)] else [])"

definition with_query :: "string \<Rightarrow> (string \<times> string) list \<Rightarrow> string" where
  "with_query endpoint ps =
     (let queryString = searchParams_toString ps
      in endpoint @ (if queryString \<noteq> [] then ''?'' @ queryString else []))"

fun activity_request :: "activity_call \<Rightarrow> string \<times> request_init" where
  "activity_request (activity_getUserActivities userID params) =
     (with_query (case userID of Some u \<Rightarrow> ''/api/activity/'' @ u | None \<Rightarrow> ''/api/activity'')
        (number_param ''page'' (params_page params)
         @ number_param ''limit'' (params_limit params)
         @ (if params_types params \<noteq> []
            then [(''types'', join_with '','' (params_types params))] else [])
         @ (if params_showHidden params then [(''show_hidden'', ''true'')] else [])),
      no_options)"
| "activity_request (activity_getUserPosts userID params) =
     (with_query
        (case userID of
           Some u \<Rightarrow> ''/api/activity/'' @ u @ ''/posts''
         | None \<Rightarrow> ''/api/activity/posts'')
        (number_param ''page'' (params_page params)
         @ number_param ''limit'' (params_limit params)),
      no_options)"
| "activity_request (activity_hideActivity activityID) =
     (''/api/activity/'' @ activityID @ ''/hide'', with_method ''PUT'')"
| "activity_request (activity_unhideActivity activityID) =
     (''/api/activity/'' @ activityID @ ''/unhide'', with_method ''PUT'')"
| "activity_request activity_getActivitySettings = (''/api/activity/settings'', no_options)"
| "activity_request (activity_updateActivitySettings settings) =
     (''/api/activity/settings'', with_json ''PUT'' settings)"

fun upload_request :: "upload_call \<Rightarrow> string \<times> request_init" where
  "upload_request (upload_uploadFile file) =
     (''/api/upload'',
      no_options\<lparr>http_method := Some ''POST'', body := Some (FormData [(''file'', file)])\<rparr>)"

fun request :: "call \<Rightarrow> string \<times> request_init" where
  "request (Auth c) = auth_request c"
| "request (Posts c) = posts_request c"
| "request (Comments c) = comments_request c"
| "request (Communities c) = communities_request c"
| "request (Users c) = users_request c"
| "request (Messages c) = messages_request c"
| "request (Notifications c) = notifications_request c"
| "request (Activity c) = activity_request c"
| "request (Upload c) = upload_request c"

subsection \<open>What each method does with the outcome\<close>

definition no_session :: string where
  "no_session = ''No session token provided''"

fun auth_respond :: "auth_call \<Rightarrow> js_error + jsval \<Rightarrow> js_error + jsval" where
  "auth_respond auth_getSession r =
     (case r of
        Inl error \<Rightarrow> if String_includes (message error) no_session then Inr JNull else Inl error
      | Inr session \<Rightarrow> Inr session)"
| "auth_respond auth_checkAuth r =
     (case r of
        Inl error \<Rightarrow> Inr (JObj [(''isAuthenticated'', JBool False), (''user'', JNull)])
      | Inr session \<Rightarrow> Inr (JObj [(''isAuthenticated'', JBool True), (''user'', session)]))"
| "auth_respond c r = r"

text \<open>
  The wrapping of a bare array by the four list methods of \<open>posts\<close>: \<open>total\<close> is
  \<^verbatim>\<open>data.length\<close> and \<open>hasMore\<close> is \<^verbatim>\<open>data.length === limit\<close>.
\<close>

definition posts_page :: "int \<Rightarrow> int \<Rightarrow> jsval \<Rightarrow> jsval" where
  "posts_page p l data =
     (case data of
        JArr xs \<Rightarrow>
          JObj [(''posts'', data),
                (''page'', JNum p),
                (''limit'', JNum l),
                (''total'', JNum (int (length xs))),
                (''hasMore'', JBool (int (length xs) = l))]
      | _ \<Rightarrow> data)"

text \<open>
  The wrapping by \<open>comments.getPostComments\<close> (under \<open>comments\<close>) and by
  \<open>communities.getPosts\<close> (under \<open>posts\<close>): four properties, no \<open>hasMore\<close>.
\<close>

definition plain_page :: "string \<Rightarrow> int \<Rightarrow> int \<Rightarrow> jsval \<Rightarrow> jsval" where
  "plain_page name p l data =
     (case data of
        JArr xs \<Rightarrow>
          JObj [(name, data),
                (''page'', JNum p),
                (''limit'', JNum l),
                (''total'', JNum (int (length xs)))]
      | _ \<Rightarrow> data)"

fun posts_respond :: "posts_call \<Rightarrow> js_error + jsval \<Rightarrow> js_error + jsval" where
  "posts_respond (posts_getPosts p l category) r =
     (case r of Inl error \<Rightarrow> Inl error
      | Inr data \<Rightarrow> Inr (posts_page (or_default 1 p) (or_default 10 l) data))"
| "posts_respond (posts_getLikedPosts p l) r =
     (case r of Inl error \<Rightarrow> Inl error
      | Inr data \<Rightarrow> Inr (posts_page (or_default 1 p) (or_default 10 l) data))"
| "posts_respond (posts_getCommentedPosts p l) r =
     (case r of Inl error \<Rightarrow> Inl error
      | Inr data \<Rightarrow> Inr (posts_page (or_default 1 p) (or_default 10 l) data))"
| "posts_respond (posts_getSavedPosts p l) r =
     (case r of Inl error \<Rightarrow> Inl error
      | Inr data \<Rightarrow> Inr (posts_page (or_default 1 p) (or_default 10 l) data))"
| "posts_respond c r = r"

fun comments_respond :: "comments_call \<Rightarrow> js_error + jsval \<Rightarrow> js_error + jsval" where
  "comments_respond (comments_getPostComments postId p l parentId) r =
     (case r of Inl error \<Rightarrow> Inl error
      | Inr data \<Rightarrow> Inr (plain_page ''comments'' (or_default 1 p) (or_default 20 l) data))"
| "comments_respond c r = r"

definition mock_communities_list :: jsval where
  "mock_communities_list = JArr (map JObj mockCommunities)"

definition creation_unavailable :: js_error where
  "creation_unavailable =
     JsError ''Error'' ''Community creation not available in development mode''"

definition joined :: jsval where
  "joined =
     JObj [(''success'', JBool True), (''message'', JStr ''Successfully joined community'')]"

text \<open>
  \<^verbatim>\<open>mockCommunities.find(c => c.id === parseInt(communityId))\<close>: the first mock community
  whose \<open>id\<close> is the number \<^verbatim>\<open>parseInt\<close> read; NaN equals none.
\<close>

definition find_mock_community :: "string \<Rightarrow> (string \<times> jsval) list option" where
  "find_mock_community communityId =
     find (\<lambda>c. case parseInt communityId of
                  None \<Rightarrow> False
                | Some n \<Rightarrow> member c ''id'' = JNum n)
       mockCommunities"

text \<open>
  The \<^verbatim>\<open>catch\<close> of \<open>communities.getPosts\<close>:
  \<^verbatim>\<open>const posts = mockCommunityPosts[communityId] || []\<close>, then \<^verbatim>\<open>posts.length\<close>.
\<close>

definition mock_posts_page :: "string \<Rightarrow> int \<Rightarrow> int \<Rightarrow> js_error + jsval" where
  "mock_posts_page communityId p l =
     (let found = member mockCommunityPosts communityId;
          posts = (if truthy found then found else JArr [])
      in case get posts ''length'' of
           Inl error \<Rightarrow> Inl error
         | Inr len \<Rightarrow>
             Inr (JObj [(''posts'', posts),
                        (''page'', JNum p),
                        (''limit'', JNum l),
                        (''total'', len)]))"

fun communities_respond :: "communities_call \<Rightarrow> js_error + jsval \<Rightarrow> js_error + jsval" where
  "communities_respond communities_getCommunities r =
     (case r of
        Inr data \<Rightarrow>
          Inr (case data of
                 JArr xs \<Rightarrow> JObj [(''communities'', data), (''total'', JNum (int (length xs)))]
               | _ \<Rightarrow> data)
      | Inl error \<Rightarrow>
          Inr (JObj [(''communities'', mock_communities_list),
                     (''total'', JNum (int (length mockCommunities)))]))"
| "communities_respond communities_getAll r =
     (case r of
        Inr data \<Rightarrow>
          if isArray data then Inr data
          else (case get data ''communities'' of
                  Inr found \<Rightarrow> Inr (if truthy found then found else JArr [])
                | Inl error \<Rightarrow> Inr mock_communities_list)
      | Inl error \<Rightarrow> Inr mock_communities_list)"
| "communities_respond (communities_createCommunity communityData) r =
     (case r of Inr data \<Rightarrow> Inr data | Inl error \<Rightarrow> Inl creation_unavailable)"
| "communities_respond (communities_getCommunity communityId) r =
     (case r of
        Inr data \<Rightarrow> Inr data
      | Inl error \<Rightarrow>
          (case find_mock_community communityId of
             Some mockCommunity \<Rightarrow> Inr (JObj (AList.update ''members'' (JArr []) mockCommunity))
           | None \<Rightarrow> Inl error))"
| "communities_respond (communities_joinCommunity communityId invitedBy) r =
     (case r of Inr data \<Rightarrow> Inr data | Inl error \<Rightarrow> Inr joined)"
| "communities_respond (communities_getPosts communityId p l) r =
     (case r of
        Inr data \<Rightarrow> Inr (plain_page ''posts'' (or_default 1 p) (or_default 10 l) data)
      | Inl error \<Rightarrow> mock_posts_page communityId (or_default 1 p) (or_default 10 l))"
| "communities_respond (communities_getEvents communityId) r =
     (case r of Inr data \<Rightarrow> Inr data | Inl error \<Rightarrow> Inr (JArr []))"
| "communities_respond c r = r"

text \<open>\<open>messages.markAsRead\<close> logs the outcome and hands it on: its \<^verbatim>\<open>catch\<close> rethrows.\<close>

fun messages_respond :: "messages_call \<Rightarrow> js_error + jsval \<Rightarrow> js_error + jsval" where
  "messages_respond (messages_markAsRead userId) r =
     (case r of Inr result \<Rightarrow> Inr result | Inl error \<Rightarrow> Inl error)"
| "messages_respond c r = r"

definition invalid_response :: js_error where
  "invalid_response = JsError ''Error'' ''Invalid response from server''"

text \<open>
  \<open>upload.uploadFile\<close>: \<^verbatim>\<open>if (!response || !response.url) throw ...\<close> stands inside the
  \<^verbatim>\<open>try\<close>, whose \<^verbatim>\<open>catch\<close> logs and rethrows.
\<close>

fun upload_respond :: "upload_call \<Rightarrow> js_error + jsval \<Rightarrow> js_error + jsval" where
  "upload_respond (upload_uploadFile file) r =
     (case r of
        Inl error \<Rightarrow> Inl error
      | Inr response \<Rightarrow>
          if \<not> truthy response then Inl invalid_response
          else (case get response ''url'' of
                  Inl error \<Rightarrow> Inl error
                | Inr u \<Rightarrow> if \<not> truthy u then Inl invalid_response else Inr response))"

text \<open>The methods of \<open>users\<close>, \<open>notifications\<close> and \<open>activity\<close> return the promise of
  \<^verbatim>\<open>fetchAPI\<close> itself.\<close>

fun respond :: "call \<Rightarrow> js_error + jsval \<Rightarrow> js_error + jsval" where
  "respond (Auth c) r = auth_respond c r"
| "respond (Posts c) r = posts_respond c r"
| "respond (Comments c) r = comments_respond c r"
| "respond (Communities c) r = communities_respond c r"
| "respond (Users c) r = r"
| "respond (Messages c) r = messages_respond c r"
| "respond (Notifications c) r = r"
| "respond (Activity c) r = r"
| "respond (Upload c) r = upload_respond c r"

definition underlying :: "runtime \<Rightarrow> call \<Rightarrow> js_error + jsval" where
  "underlying rt c = fetchAPI rt (fst (request c)) (snd (request c))"

definition invoke :: "runtime \<Rightarrow> call \<Rightarrow> js_error + jsval" where
  "invoke rt c = respond c (underlying rt c)"

section \<open>The reconnecting WebSocket\<close>

text \<open>
  \<^verbatim>\<open>connectWebSocket(onMessage)\<close> creates a socket and installs three listeners that
  close over \<open>onMessage\<close>. The browser is a state: the sockets created so far, each with
  the handler its listeners captured; the pending timeouts, each the arrow function
  \<^verbatim>\<open>() => connectWebSocket(onMessage)\<close> with its handler and its delay in milliseconds;
  the calls made to handlers; and the errors written to the console. The handler is the
  caller's and is kept abstract (\<open>'h\<close>); the environment says whether a call of it throws.
\<close>

record 'h websocket =
  ws_url :: string
  readyState :: nat
  captured :: 'h

datatype 'h timeout = Timeout (reconnect_with: 'h) (delay: nat)

record 'h browser =
  sockets :: "'h websocket list"
  timeouts :: "'h timeout list"
  delivered :: "('h \<times> jsval) list"
  console_errors :: "js_error list"

record 'h window =
  location_protocol :: string
  JSON_parse :: "string \<Rightarrow> js_error + jsval"
  handler_throws :: "'h \<Rightarrow> jsval \<Rightarrow> js_error option"

text \<open>\<^verbatim>\<open>API_URL.replace(/^https?:\/\//, "")\<close>\<close>

definition strip_scheme :: "string \<Rightarrow> string" where
  "strip_scheme u =
     (if prefix ''http://'' u then drop 7 u
      else if prefix ''https://'' u then drop 8 u
      else u)"

definition new_socket :: "runtime \<Rightarrow> 'h window \<Rightarrow> 'h \<Rightarrow> 'h websocket" where
  "new_socket rt w onMessage =
     (let protocol = (if location_protocol w = ''https:'' then ''wss:'' else ''ws:'');
          host = strip_scheme (API_URL rt)
      in \<lparr>ws_url = protocol @ ''//'' @ host @ ''/ws'', readyState = 0, captured = onMessage\<rparr>)"

text \<open>The socket returned is the last of the new state.\<close>

definition connectWebSocket :: "runtime \<Rightarrow> 'h window \<Rightarrow> 'h \<Rightarrow> 'h browser \<Rightarrow> 'h browser" where
  "connectWebSocket rt w onMessage st =
     st\<lparr>sockets := sockets st @ [new_socket rt w onMessage]\<rparr>"

definition ws_onmessage :: "'h window \<Rightarrow> 'h \<Rightarrow> string \<Rightarrow> 'h browser \<Rightarrow> 'h browser" where
  "ws_onmessage w onMessage payload st =
     (case JSON_parse w payload of
        Inl error \<Rightarrow> st\<lparr>console_errors := console_errors st @ [error]\<rparr>
      | Inr data \<Rightarrow>
          (let st' = st\<lparr>delivered := delivered st @ [(onMessage, data)]\<rparr>
           in case handler_throws w onMessage data of
                Some error \<Rightarrow> st'\<lparr>console_errors := console_errors st' @ [error]\<rparr>
              | None \<Rightarrow> st'))"

definition ws_onclose :: "'h \<Rightarrow> 'h browser \<Rightarrow> 'h browser" where
  "ws_onclose onMessage st = st\<lparr>timeouts := timeouts st @ [Timeout onMessage 5000]\<rparr>"

definition ws_onerror :: "'h browser \<Rightarrow> 'h browser" where
  "ws_onerror st = st"

text \<open>
  The events the browser delivers: a message, a close or an error on the socket of an
  index, and the firing of the pending timeout of an index. A close event finds the
  socket closed by the browser (\<open>readyState\<close> 3); a fired timeout leaves the list and
  runs its arrow function. An event on an index that does not exist is no event.
\<close>

datatype event = MessageEvent nat string | CloseEvent nat | ErrorEvent nat | TimeoutFired nat

fun dispatch :: "runtime \<Rightarrow> 'h window \<Rightarrow> event \<Rightarrow> 'h browser \<Rightarrow> 'h browser" where
  "dispatch rt w (MessageEvent i payload) st =
     (if i < length (sockets st) then ws_onmessage w (captured (sockets st ! i)) payload st
      else st)"
| "dispatch rt w (CloseEvent i) st =
     (if i < length (sockets st)
      then ws_onclose (captured (sockets st ! i))
             (st\<lparr>sockets := (sockets st)[i := (sockets st ! i)\<lparr>readyState := 3\<rparr>]\<rparr>)
      else st)"
| "dispatch rt w (ErrorEvent i) st = (if i < length (sockets st) then ws_onerror st else st)"
| "dispatch rt w (TimeoutFired j) st =
     (if j < length (timeouts st)
      then connectWebSocket rt w (reconnect_with (timeouts st ! j))
             (st\<lparr>timeouts := take j (timeouts st) @ drop (Suc j) (timeouts st)\<rparr>)
      else st)"

section \<open>Example environments\<close>

text \<open>
  \<open>offline\<close> is a client whose every \<^verbatim>\<open>fetch\<close> is rejected, as with no network;
  \<open>answering status_ok data\<close> is a backend that answers every request with the JSON
  \<open>data\<close>; \<open>answering_text\<close> one that answers with a body that is not JSON.
\<close>

definition failed_to_fetch :: js_error where
  "failed_to_fetch = JsError ''TypeError'' ''Failed to fetch''"

definition offline :: runtime where
  "offline = \<lparr>NEXT_PUBLIC_API_URL = None, fetch = (\<lambda>u init. Inl failed_to_fetch)\<rparr>"

definition answering :: "bool \<Rightarrow> jsval \<Rightarrow> runtime" where
  "answering status_ok data =
     \<lparr>NEXT_PUBLIC_API_URL = None,
      fetch = (\<lambda>u init. Inr (Response status_ok (Some ''application/json'') u (Inr data)))\<rparr>"

definition answering_text :: "bool \<Rightarrow> runtime" where
  "answering_text status_ok =
     \<lparr>NEXT_PUBLIC_API_URL = None,
      fetch = (\<lambda>u init. Inr (Response status_ok (Some ''text/plain'') u
                                 (Inl (JsError ''SyntaxError'' ''Unexpected token''))))\<rparr>"

text \<open>
  \<open>answering_as contentType data\<close> answers every request with status 200, the header
  \<open>content-type\<close> given (none for \<open>None\<close>) and the JSON text of \<open>data\<close> as the body.
\<close>

definition answering_as :: "string option \<Rightarrow> jsval \<Rightarrow> runtime" where
  "answering_as contentType data =
     \<lparr>NEXT_PUBLIC_API_URL = None,
      fetch = (\<lambda>u init. Inr (Response True contentType u (Inr data)))\<rparr>"

definition unparsable :: js_error where
  "unparsable = JsError ''SyntaxError'' ''Unexpected end of JSON input''"

text \<open>A page served over https whose JSON parser rejects the empty text only.\<close>

definition secure_page :: "nat window" where
  "secure_page =
     \<lparr>location_protocol = ''https:'',
      JSON_parse = (\<lambda>payload. if payload = [] then Inl unparsable else Inr (JStr payload)),
      handler_throws = (\<lambda>h data. None)\<rparr>"

definition one_socket :: "nat browser" where
  "one_socket =
     \<lparr>sockets = [\<lparr>ws_url = ''wss://localhost:8080/ws'', readyState = 1, captured = 7\<rparr>],
      timeouts = [], delivered = [], console_errors = []\<rparr>"

section \<open>Vocabulary of the properties\<close>

text \<open>
  \<open>returned_property r k\<close> is the property \<open>k\<close> of the plain object a call returned
  (\<open>JUndefined\<close> when the object has no such property); it is \<open>None\<close> when the call
  threw or returned something else.
\<close>

definition returned_property :: "js_error + jsval \<Rightarrow> string \<Rightarrow> jsval option" where
  "returned_property r k = (case r of Inr (JObj kvs) \<Rightarrow> Some (member kvs k) | _ \<Rightarrow> None)"

text \<open>
  The operations that read communities (list and get communities, list the posts and the
  events of a community, join), the two that read the session, and the six groups whose
  methods hand every failure on.
\<close>

fun community_read :: "call \<Rightarrow> bool" where
  "community_read (Communities communities_getCommunities) = True"
| "community_read (Communities communities_getAll) = True"
| "community_read (Communities (communities_getCommunity communityId)) = True"
| "community_read (Communities (communities_getPosts communityId p l)) = True"
| "community_read (Communities (communities_getEvents communityId)) = True"
| "community_read (Communities (communities_joinCommunity communityId invitedBy)) = True"
| "community_read c = False"

fun session_read :: "call \<Rightarrow> bool" where
  "session_read (Auth auth_getSession) = True"
| "session_read (Auth auth_checkAuth) = True"
| "session_read c = False"

fun propagating_group :: "call \<Rightarrow> bool" where
  "propagating_group (Posts c) = True"
| "propagating_group (Comments c) = True"
| "propagating_group (Messages c) = True"
| "propagating_group (Users c) = True"
| "propagating_group (Notifications c) = True"
| "propagating_group (Activity c) = True"
| "propagating_group c = False"

section \<open>Auxiliary facts\<close>

lemma includes_sublist: "String_includes s sub = sublist sub s"
  by (induction s) (auto simp: sublist_Cons_right)

lemma offline_underlying: "underlying offline c = Inl failed_to_fetch"
  by (simp add: underlying_def fetchAPI_def offline_def)

lemma answering_underlying: "underlying (answering True data) c = Inr data"
  by (simp add: underlying_def fetchAPI_def answering_def handle_response_def is_json_def)

lemma get_throws_falsy: "get v k = Inl err \<Longrightarrow> \<not> truthy v"
  by (cases v) simp_all

lemma truthy_has_length: "truthy v \<Longrightarrow> \<exists>n. get v ''length'' = Inr n"
  by (cases v) simp_all

lemmas request_simps = with_json_def with_method_def no_options_def

text \<open>No exported method passes headers of its own to \<^verbatim>\<open>fetchAPI\<close>.\<close>

lemma request_headers: "headers (snd (request c)) = []"
proof (cases c)
  case (Auth x) then show ?thesis by (cases x) (simp_all add: request_simps)
next
  case (Posts x) then show ?thesis by (cases x) (simp_all add: request_simps)
next
  case (Comments x) then show ?thesis by (cases x) (simp_all add: request_simps)
next
  case (Communities x) then show ?thesis by (cases x) (simp_all add: request_simps)
next
  case (Users x) then show ?thesis by (cases x) (simp_all add: request_simps)
next
  case (Messages x) then show ?thesis by (cases x) (simp_all add: request_simps)
next
  case (Notifications x) then show ?thesis by (cases x) (simp_all add: request_simps)
next
  case (Activity x) then show ?thesis by (cases x) (simp_all add: request_simps)
next
  case (Upload x) then show ?thesis by (cases x) (simp_all add: request_simps)
qed

text \<open>The methods of the six groups hand a failure of \<^verbatim>\<open>fetchAPI\<close> on as it is.\<close>

lemma propagating_respond: "propagating_group c \<Longrightarrow> respond c (Inl e) = Inl e"
proof (cases c)
  case (Posts x) then show ?thesis by (cases x) simp_all
next
  case (Comments x) then show ?thesis by (cases x) simp_all
next
  case (Messages x) then show ?thesis by (cases x) simp_all
qed simp_all

text \<open>Only the community reads and the session reads turn a failure into a value.\<close>

lemma recovering_respond:
  assumes h: "respond c (Inl e) = Inr v"
  shows "community_read c \<or> session_read c"
proof (cases c)
  case (Auth x) with h show ?thesis by (cases x) (auto split: if_splits)
next
  case (Posts x) with h show ?thesis by (cases x) auto
next
  case (Comments x) with h show ?thesis by (cases x) auto
next
  case (Communities x) with h show ?thesis by (cases x) (auto split: option.splits)
next
  case (Messages x) with h show ?thesis by (cases x) auto
next
  case (Upload x) with h show ?thesis by (cases x) auto
qed (use h in auto)

lemma mock_ids: "map (\<lambda>c. member c ''id'') mockCommunities = map JNum [1, 2, 3, 4, 5]"
  by (simp add: mockCommunities_def member_def)

lemma distinct_mock_ids: "distinct (map (\<lambda>c. member c ''id'') mockCommunities)"
  by (simp add: mock_ids)

lemma find_distinct:
  "distinct (map f xs) \<Longrightarrow> c \<in> set xs \<Longrightarrow> f c = v \<Longrightarrow> find (\<lambda>x. f x = v) xs = Some c"
  by (induction xs) auto

lemma find_mock_community_Some:
  assumes "parseInt communityId = Some n" and "c \<in> set mockCommunities"
    and "member c ''id'' = JNum n"
  shows "find_mock_community communityId = Some c"
  using assms find_distinct [OF distinct_mock_ids, of c "JNum n"]
  by (simp add: find_mock_community_def)

lemma find_mock_community_None:
  assumes "\<forall>c \<in> set mockCommunities.
             \<not> (\<exists>n. parseInt communityId = Some n \<and> member c ''id'' = JNum n)"
  shows "find_mock_community communityId = None"
  using assms by (auto simp: find_mock_community_def find_None_iff split: option.splits)

text \<open>
  What the \<^verbatim>\<open>catch\<close> of \<open>communities.getPosts\<close> yields by design: the seeded post for the
  key \<open>1\<close>, the empty list for a key that names neither a seeded entry nor a property
  that a plain object inherits, and a value in every case.
\<close>

lemma communities_getPosts_seeded:
  assumes "underlying rt (Communities (communities_getPosts ''1'' p l)) = Inl e"
  shows "invoke rt (Communities (communities_getPosts ''1'' p l))
           = Inr (JObj [(''posts'', JArr [mock_post_101]), (''page'', JNum (or_default 1 p)),
                        (''limit'', JNum (or_default 10 l)), (''total'', JNum 1)])"
  using assms by (simp add: invoke_def mock_posts_page_def member_def mockCommunityPosts_def)

lemma communities_getPosts_unseeded:
  assumes "underlying rt (Communities (communities_getPosts communityId p l)) = Inl e"
    and "communityId \<notin> fst ` set mockCommunityPosts"
    and "communityId \<notin> fst ` set object_prototype"
  shows "invoke rt (Communities (communities_getPosts communityId p l))
           = Inr (JObj [(''posts'', JArr []), (''page'', JNum (or_default 1 p)),
                        (''limit'', JNum (or_default 10 l)), (''total'', JNum 0)])"
  using assms
  by (simp add: invoke_def mock_posts_page_def member_def map_of_eq_None_iff [THEN iffD2]
      or_undefined_def)

lemma communities_getPosts_returns:
  assumes "underlying rt (Communities (communities_getPosts communityId p l)) = Inl e"
  shows "\<exists>v. invoke rt (Communities (communities_getPosts communityId p l)) = Inr v"
proof -
  define posts where
    "posts = (if truthy (member mockCommunityPosts communityId)
              then member mockCommunityPosts communityId else JArr [])"
  have "truthy posts" by (simp add: posts_def)
  then obtain n where "get posts ''length'' = Inr n" using truthy_has_length by blast
  then show ?thesis
    using assms by (simp add: invoke_def mock_posts_page_def Let_def posts_def)
qed

lemma JSON_stringify_not_form: "JSON_stringify v \<noteq> Some (FormData entries)"
  by (cases v) simp_all

text \<open>Of all exported methods, \<open>upload.uploadFile\<close> alone sends a \<open>FormData\<close> body.\<close>

lemma request_isFormData:
  "isFormData (snd (request c)) = (\<exists>file. c = Upload (upload_uploadFile file))"
proof (cases c)
  case (Auth x) then show ?thesis
    by (cases x) (auto simp: isFormData_def request_simps JSON_stringify_not_form
        split: option.splits body.splits)
next
  case (Posts x) then show ?thesis
    by (cases x) (auto simp: isFormData_def request_simps JSON_stringify_not_form
        split: option.splits body.splits)
next
  case (Comments x) then show ?thesis
    by (cases x) (auto simp: isFormData_def request_simps JSON_stringify_not_form
        split: option.splits body.splits)
next
  case (Communities x) then show ?thesis
    by (cases x) (auto simp: isFormData_def request_simps JSON_stringify_not_form
        split: option.splits body.splits)
next
  case (Users x) then show ?thesis
    by (cases x) (auto simp: isFormData_def request_simps JSON_stringify_not_form
        split: option.splits body.splits)
next
  case (Messages x) then show ?thesis
    by (cases x) (auto simp: isFormData_def request_simps JSON_stringify_not_form
        split: option.splits body.splits)
next
  case (Notifications x) then show ?thesis
    by (cases x) (auto simp: isFormData_def request_simps split: option.splits body.splits)
next
  case (Activity x) then show ?thesis
    by (cases x) (auto simp: isFormData_def request_simps JSON_stringify_not_form
        split: option.splits body.splits)
next
  case (Upload x) then show ?thesis
    by (cases x) (auto simp: isFormData_def request_simps split: option.splits body.splits)
qed

section \<open>The claims\<close>

subsection \<open>C1: the envelope around a bare array\<close>

text \<open>
  C1, as amended. When the request of a list method succeeds with a bare array of length
  \<open>L\<close> and the requested limit is \<open>M\<close> (10 when omitted), the four list methods of
  \<open>posts\<close> return an envelope with \<open>total = L\<close> and \<open>hasMore = (L = M)\<close>;
  \<open>comments.getPostComments\<close> and \<open>communities.getPosts\<close> return an envelope with
  \<open>total = L\<close> and no property \<open>hasMore\<close> (reading it gives \<open>undefined\<close>).
\<close>

theorem list_envelopes:
  "(underlying rt c = Inr (JArr xs)
      \<and> c \<in> {Posts (posts_getPosts p l category), Posts (posts_getLikedPosts p l),
              Posts (posts_getCommentedPosts p l), Posts (posts_getSavedPosts p l)}
    \<longrightarrow> returned_property (invoke rt c) ''total'' = Some (JNum (int (length xs)))
        \<and> returned_property (invoke rt c) ''hasMore''
            = Some (JBool (int (length xs) = or_default 10 l)))
   \<and> (underlying rt c = Inr (JArr xs)
        \<and> c \<in> {Comments (comments_getPostComments postId p l parentId),
                Communities (communities_getPosts communityId p l)}
      \<longrightarrow> returned_property (invoke rt c) ''total'' = Some (JNum (int (length xs)))
          \<and> returned_property (invoke rt c) ''hasMore'' = Some JUndefined)"
  by (auto simp: invoke_def returned_property_def posts_page_def plain_page_def member_def
      object_prototype_def or_undefined_def)

text \<open>
  A backend that answers a one-element array, asked with limit 1: \<open>posts.getLikedPosts\<close>
  reports one post and more to come, \<open>communities.getPosts\<close> one post and no \<open>hasMore\<close>.
\<close>

theorem list_envelopes_witness:
  "returned_property
     (invoke (answering True (JArr [JNull])) (Posts (posts_getLikedPosts None (Some 1))))
     ''total'' = Some (JNum 1)
   \<and> returned_property
       (invoke (answering True (JArr [JNull])) (Posts (posts_getLikedPosts None (Some 1))))
       ''hasMore'' = Some (JBool True)
   \<and> returned_property
       (invoke (answering True (JArr [JNull]))
          (Communities (communities_getPosts ''2'' None (Some 1))))
       ''hasMore'' = Some JUndefined"
  using
    list_envelopes [where rt = "answering True (JArr [JNull])"
      and c = "Posts (posts_getLikedPosts None (Some 1))"
      and xs = "[JNull]" and p = None and l = "Some 1"]
    list_envelopes [where rt = "answering True (JArr [JNull])"
      and c = "Communities (communities_getPosts ''2'' None (Some 1))"
      and xs = "[JNull]" and p = None and l = "Some 1" and communityId = "''2''"]
  by (simp add: answering_underlying or_default_def)

text \<open>
  The claim as stated fails for \<open>comments.getPostComments\<close>: a full page (one comment,
  limit 1) comes back with \<open>total\<close> 1 and without \<open>hasMore\<close>, where the claim asks for
  \<open>hasMore = true\<close>.
\<close>

theorem getPostComments_hasMore_counterexample:
  "underlying (answering True (JArr [JNull]))
       (Comments (comments_getPostComments ''7'' None (Some 1) None))
     = Inr (JArr [JNull])
   \<and> returned_property
       (invoke (answering True (JArr [JNull]))
          (Comments (comments_getPostComments ''7'' None (Some 1) None)))
       ''total'' = Some (JNum 1)
   \<and> returned_property
       (invoke (answering True (JArr [JNull]))
          (Comments (comments_getPostComments ''7'' None (Some 1) None)))
       ''hasMore'' = Some JUndefined
   \<and> returned_property
       (invoke (answering True (JArr [JNull]))
          (Comments (comments_getPostComments ''7'' None (Some 1) None)))
       ''hasMore'' \<noteq> Some (JBool (int (length [JNull]) = 1))"
  by (simp add: answering_underlying invoke_def returned_property_def plain_page_def member_def
      object_prototype_def or_undefined_def or_default_def)

subsection \<open>C2: the absent session\<close>

text \<open>
  C2, as amended. When the request behind \<open>auth.getSession\<close> fails, the method returns
  \<open>null\<close> exactly when the message of the failure contains the text
  "No session token provided" (so also when it is that text), and otherwise throws the
  failure it caught.
\<close>

theorem getSession_suppression:
  "underlying rt (Auth auth_getSession) = Inl e \<longrightarrow>
     invoke rt (Auth auth_getSession)
       = (if sublist ''No session token provided'' (message e) then Inr JNull else Inl e)
     \<and> (message e = ''No session token provided'' \<longrightarrow>
          invoke rt (Auth auth_getSession) = Inr JNull)"
  by (auto simp: invoke_def includes_sublist no_session_def)

text \<open>Without a network, the failure "Failed to fetch" reaches the caller.\<close>

theorem getSession_suppression_witness:
  "invoke offline (Auth auth_getSession) = Inl failed_to_fetch"
proof -
  have "\<not> String_includes ''Failed to fetch'' ''No session token provided''"
    by simp
  then show ?thesis
    using getSession_suppression [of offline failed_to_fetch]
    by (simp add: offline_underlying failed_to_fetch_def includes_sublist)
qed

text \<open>
  The claim as stated fails: a backend that answers status 401 with the error
  "Unauthorized: No session token provided" makes \<^verbatim>\<open>fetchAPI\<close> throw an error of that
  message, which is not the exact text, and \<open>getSession\<close> returns \<open>null\<close>.
\<close>

theorem getSession_exact_message_counterexample:
  "underlying
       (answering False (JObj [(''error'', JStr ''Unauthorized: No session token provided'')]))
       (Auth auth_getSession)
     = Inl (JsError ''Error'' ''Unauthorized: No session token provided'')
   \<and> ''Unauthorized: No session token provided'' \<noteq> ''No session token provided''
   \<and> invoke
       (answering False (JObj [(''error'', JStr ''Unauthorized: No session token provided'')]))
       (Auth auth_getSession)
     = Inr JNull"
  by (simp add: invoke_def underlying_def fetchAPI_def answering_def handle_response_def
      is_json_def api_error_def member_def no_session_def)

subsection \<open>C3: the constructed request\<close>

text \<open>
  The header \<open>Content-Type: application/json\<close> is a default of \<^verbatim>\<open>fetchAPI\<close>: the
  caller's headers are spread over it, and with a \<open>FormData\<close> body the headers are the
  caller's alone. \<^verbatim>\<open>fetchAPI\<close> is private to the module, and no method passes headers
  (\<open>request_headers\<close>), so the default is what every request carries.
\<close>

lemma fetchOptions_headers:
  "map_of (headers (fetchOptions options)) ''Content-Type''
     = (case map_of (headers options) ''Content-Type'' of
          Some given \<Rightarrow> Some given
        | None \<Rightarrow> if isFormData options then None else Some ''application/json'')"
  by (simp add: fetchOptions_def defaultHeaders_def AList.merge_conv' map_add_def
      split: option.splits)

text \<open>
  C3. Whatever options the caller gives, the request \<^verbatim>\<open>fetchAPI\<close> constructs has
  credentials \<open>include\<close> and mode \<open>cors\<close>, and keeps the caller's method and body. For
  every call of an exported method, \<^verbatim>\<open>fetch\<close> receives the constructed options; the body
  is \<open>FormData\<close> for \<open>upload.uploadFile\<close> and for no other method; when the body is not
  \<open>FormData\<close> the headers are exactly \<open>Content-Type: application/json\<close>, and when it is
  \<open>FormData\<close> the request has no header at all, so no \<open>Content-Type\<close>.
\<close>

theorem fetchOptions_request:
  "credentials (fetchOptions options) = Some ''include''
   \<and> mode (fetchOptions options) = Some ''cors''
   \<and> http_method (fetchOptions options) = http_method options
   \<and> body (fetchOptions options) = body options
   \<and> underlying rt c
       = (case fetch rt (API_URL rt @ fst (request c)) (fetchOptions (snd (request c))) of
            Inl e \<Rightarrow> Inl e
          | Inr response \<Rightarrow> handle_response response)
   \<and> isFormData (snd (request c)) = (\<exists>file. c = Upload (upload_uploadFile file))
   \<and> (\<not> isFormData (snd (request c)) \<longrightarrow>
        headers (fetchOptions (snd (request c))) = [(''Content-Type'', ''application/json'')])
   \<and> (isFormData (snd (request c)) \<longrightarrow>
        headers (fetchOptions (snd (request c))) = []
        \<and> map_of (headers (fetchOptions (snd (request c)))) ''Content-Type'' = None)"
proof -
  have "isFormData (snd (request c)) = (\<exists>file. c = Upload (upload_uploadFile file))"
    by (rule request_isFormData)
  moreover have "underlying rt c
       = (case fetch rt (API_URL rt @ fst (request c)) (fetchOptions (snd (request c))) of
            Inl e \<Rightarrow> Inl e
          | Inr response \<Rightarrow> handle_response response)"
    by (simp add: underlying_def fetchAPI_def)
  moreover have "headers (fetchOptions (snd (request c)))
       = (if isFormData (snd (request c)) then [] else [(''Content-Type'', ''application/json'')])"
    by (simp add: fetchOptions_def defaultHeaders_def request_headers)
  ultimately show ?thesis
    by (simp add: fetchOptions_def)
qed

text \<open>
  Options that ask for no credentials still give a request with credentials; the request
  of \<open>posts.createPost\<close> carries the JSON content type, that of \<open>upload.uploadFile\<close> no
  header.
\<close>

theorem fetchOptions_request_witness:
  "credentials (fetchOptions (with_json ''POST'' JNull\<lparr>credentials := Some ''omit''\<rparr>))
     = Some ''include''
   \<and> \<not> isFormData (snd (request (Posts (posts_createPost JNull))))
   \<and> headers (fetchOptions (snd (request (Posts (posts_createPost JNull)))))
       = [(''Content-Type'', ''application/json'')]
   \<and> isFormData (snd (request (Upload (upload_uploadFile ''a.png''))))
   \<and> headers (fetchOptions (snd (request (Upload (upload_uploadFile ''a.png''))))) = []"
  using
    fetchOptions_request [of "with_json ''POST'' JNull\<lparr>credentials := Some ''omit''\<rparr>"
      offline "Posts (posts_createPost JNull)"]
    fetchOptions_request [of no_options offline "Upload (upload_uploadFile ''a.png'')"]
  by simp

subsection \<open>C4: where a failure is replaced\<close>

text \<open>
  C4. Every operation of the groups \<open>posts\<close>, \<open>comments\<close>, \<open>messages\<close>, \<open>users\<close>,
  \<open>notifications\<close> and \<open>activity\<close> hands the failure of its request on to the caller
  unchanged. An operation that returns a value although its request failed is a
  community read (list or get communities, list the posts or the events of a community,
  join) or one of the two session reads of \<open>auth\<close>, which answer \<open>null\<close> or "not
  authenticated" and no mock data.
\<close>

theorem failures_propagate:
  "(propagating_group c \<and> underlying rt c = Inl e \<longrightarrow> invoke rt c = Inl e)
   \<and> (underlying rt c = Inl e \<and> invoke rt c = Inr v \<longrightarrow> community_read c \<or> session_read c)
   \<and> (underlying rt c = Inl e \<and> invoke rt c = Inr v \<and> session_read c \<longrightarrow>
        v \<in> {JNull, JObj [(''isAuthenticated'', JBool False), (''user'', JNull)]})"
proof (intro conjI impI)
  assume "propagating_group c \<and> underlying rt c = Inl e"
  then show "invoke rt c = Inl e"
    using propagating_respond [of c e] by (auto simp: invoke_def)
next
  assume "underlying rt c = Inl e \<and> invoke rt c = Inr v"
  then have "respond c (Inl e) = Inr v" by (auto simp: invoke_def)
  then show "community_read c \<or> session_read c"
    by (rule recovering_respond)
next
  assume a: "underlying rt c = Inl e \<and> invoke rt c = Inr v \<and> session_read c"
  then have r: "respond c (Inl e) = Inr v" by (auto simp: invoke_def)
  from a have "c = Auth auth_getSession \<or> c = Auth auth_checkAuth"
    by (auto elim: session_read.elims)
  with r show "v \<in> {JNull, JObj [(''isAuthenticated'', JBool False), (''user'', JNull)]}"
    by (auto split: if_splits)
qed

text \<open>
  Without a network, \<open>messages.markAsRead\<close> fails with the failure of \<^verbatim>\<open>fetch\<close>, and
  \<open>communities.getEvents\<close>, a community read, returns an empty list.
\<close>

theorem failures_propagate_witness:
  "propagating_group (Messages (messages_markAsRead ''4''))
   \<and> invoke offline (Messages (messages_markAsRead ''4'')) = Inl failed_to_fetch
   \<and> invoke offline (Communities (communities_getEvents ''4'')) = Inr (JArr [])
   \<and> community_read (Communities (communities_getEvents ''4''))"
  using failures_propagate [of "Messages (messages_markAsRead ''4'')" offline failed_to_fetch]
    failures_propagate [of "Communities (communities_getEvents ''4'')" offline failed_to_fetch
      "JArr []"]
  by (simp add: offline_underlying invoke_def)

subsection \<open>C5: reconnection\<close>

text \<open>
  C5. A close event on a socket appends exactly one timeout, of 5000 milliseconds, whose
  arrow function reconnects with the handler the socket was created with; when that
  timeout fires, one socket is created with the same handler and the timeout is gone.
  A message whose payload \<^verbatim>\<open>JSON.parse\<close> rejects changes no socket (none is closed),
  schedules nothing and calls no handler: the error goes to the console only.
\<close>

theorem reconnect_on_close:
  "(i < length (sockets st) \<longrightarrow>
      timeouts (dispatch rt w (CloseEvent i) st)
        = timeouts st @ [Timeout (captured (sockets st ! i)) 5000]
      \<and> sockets
          (dispatch rt w (TimeoutFired (length (timeouts st))) (dispatch rt w (CloseEvent i) st))
        = sockets (dispatch rt w (CloseEvent i) st)
            @ [new_socket rt w (captured (sockets st ! i))]
      \<and> captured (new_socket rt w (captured (sockets st ! i))) = captured (sockets st ! i)
      \<and> timeouts
          (dispatch rt w (TimeoutFired (length (timeouts st))) (dispatch rt w (CloseEvent i) st))
        = timeouts st)
   \<and> (i < length (sockets st) \<and> JSON_parse w payload = Inl error \<longrightarrow>
        sockets (dispatch rt w (MessageEvent i payload) st) = sockets st
        \<and> timeouts (dispatch rt w (MessageEvent i payload) st) = timeouts st
        \<and> delivered (dispatch rt w (MessageEvent i payload) st) = delivered st
        \<and> console_errors (dispatch rt w (MessageEvent i payload) st)
            = console_errors st @ [error])"
  by (simp add: ws_onclose_def ws_onmessage_def connectWebSocket_def new_socket_def nth_append
      Let_def)

text \<open>
  One open socket with handler 7: its close schedules one reconnection with handler 7
  after 5000 ms, which creates a second socket with handler 7; an empty payload leaves
  the socket open.
\<close>

theorem reconnect_on_close_witness:
  "timeouts (dispatch offline secure_page (CloseEvent 0) one_socket) = [Timeout 7 5000]
   \<and> map captured
       (sockets
          (dispatch offline secure_page (TimeoutFired 0)
             (dispatch offline secure_page (CloseEvent 0) one_socket)))
     = [7, 7]
   \<and> JSON_parse secure_page [] = Inl unparsable
   \<and> map readyState (sockets (dispatch offline secure_page (MessageEvent 0 []) one_socket))
     = [1]"
  using reconnect_on_close [of 0 one_socket offline secure_page "[]" unparsable]
  by (simp add: one_socket_def secure_page_def new_socket_def ws_onclose_def ws_onmessage_def
      connectWebSocket_def)

subsection \<open>C6: the mock list of communities\<close>

text \<open>
  C6. When its request fails, \<open>communities.getCommunities\<close> returns the mock list under
  \<open>communities\<close> with \<open>total\<close> 5, and the mock list has exactly 5 entries.
\<close>

theorem getCommunities_fallback:
  "(underlying rt (Communities communities_getCommunities) = Inl e \<longrightarrow>
      invoke rt (Communities communities_getCommunities)
        = Inr (JObj [(''communities'', JArr (map JObj mockCommunities)), (''total'', JNum 5)]))
   \<and> length mockCommunities = 5"
  by (simp add: invoke_def mock_communities_list_def mockCommunities_def)

theorem getCommunities_fallback_witness:
  "returned_property (invoke offline (Communities communities_getCommunities)) ''total''
     = Some (JNum 5)
   \<and> returned_property (invoke offline (Communities communities_getCommunities)) ''communities''
     = Some (JArr (map JObj mockCommunities))"
  using getCommunities_fallback [of offline failed_to_fetch]
  by (simp add: offline_underlying returned_property_def member_def)

subsection \<open>C7: the mock posts of a community\<close>

text \<open>
  C7, at the input where the code departs from it. The community id \<open>constructor\<close> has no
  seeded mock posts, yet \<^verbatim>\<open>mockCommunityPosts[communityId]\<close> finds the property every
  object inherits, the function \<open>Object\<close>, which is truthy: without a network
  \<open>communities.getPosts\<close> returns that function as \<open>posts\<close> and its \<open>length\<close>, 1, as
  \<open>total\<close>, not an empty list with total 0.
\<close>

theorem getPosts_inherited_key:
  "underlying offline (Communities (communities_getPosts ''constructor'' None None))
     = Inl failed_to_fetch
   \<and> map_of mockCommunityPosts ''constructor'' = None
   \<and> invoke offline (Communities (communities_getPosts ''constructor'' None None))
       = Inr (JObj [(''posts'', JFun ''Object'' 1), (''page'', JNum 1), (''limit'', JNum 10),
                    (''total'', JNum 1)])"
  by (simp add: offline_underlying invoke_def mock_posts_page_def member_def
      mockCommunityPosts_def object_prototype_def or_undefined_def or_default_def)

subsection \<open>C8: upload errors\<close>

text \<open>
  What \<open>upload.uploadFile\<close> does with the value \<^verbatim>\<open>fetchAPI\<close> returned: a value with no
  \<open>url\<close> (reading it gives \<open>undefined\<close>, or the value is \<open>null\<close>) makes the method fail
  with "Invalid response from server"; a failure of the request is thrown on as it is;
  and what the method returns is the value of the request, never a substitute.
\<close>

lemma uploadFile_value:
  "(underlying rt (Upload (upload_uploadFile file)) = Inr response
      \<and> (case get response ''url'' of Inl err \<Rightarrow> True | Inr u \<Rightarrow> u = JUndefined)
    \<longrightarrow> invoke rt (Upload (upload_uploadFile file)) = Inl invalid_response)
   \<and> (underlying rt (Upload (upload_uploadFile file)) = Inl e
      \<longrightarrow> invoke rt (Upload (upload_uploadFile file)) = Inl e)
   \<and> (invoke rt (Upload (upload_uploadFile file)) = Inr v
      \<longrightarrow> underlying rt (Upload (upload_uploadFile file)) = Inr v)"
  by (auto simp: invoke_def dest: get_throws_falsy split: sum.splits if_splits)

lemma uploadFile_value_examples:
  "invoke (answering True (JObj [(''name'', JStr ''a.png'')])) (Upload (upload_uploadFile ''a.png''))
     = Inl (JsError ''Error'' ''Invalid response from server'')
   \<and> invoke offline (Upload (upload_uploadFile ''a.png'')) = Inl failed_to_fetch
   \<and> invoke (answering True (JObj [(''url'', JStr ''/uploads/a.png'')]))
       (Upload (upload_uploadFile ''a.png''))
     = Inr (JObj [(''url'', JStr ''/uploads/a.png'')])"
  using
    uploadFile_value [of "answering True (JObj [(''name'', JStr ''a.png'')])" "''a.png''"
      "JObj [(''name'', JStr ''a.png'')]"]
    uploadFile_value [of offline "''a.png''" _ failed_to_fetch]
  by (simp add: offline_underlying answering_underlying member_def object_prototype_def
      or_undefined_def invoke_def invalid_response_def)

text \<open>
  C8, at the inputs where the code departs from it. The backend answers the upload with
  status 200 and the body \<open>{"name": "a.png"}\<close>, which has no \<open>url\<close>. Typed
  \<open>application/json\<close>, the reply makes \<open>upload.uploadFile\<close> fail with "Invalid response
  from server". Typed \<open>text/plain\<close>, typed \<open>Application/JSON\<close> or not typed at all, the
  same reply makes \<^verbatim>\<open>fetchAPI\<close> return the \<open>Response\<close> itself (lines 55 to 60), whose
  property \<open>url\<close> is the address of the request: the test of line 733 passes and the
  method returns the \<open>Response\<close> as a successful upload.
\<close>

theorem uploadFile_raw_response:
  "invoke (answering_as (Some ''application/json'') (JObj [(''name'', JStr ''a.png'')]))
       (Upload (upload_uploadFile ''a.png''))
     = Inl (JsError ''Error'' ''Invalid response from server'')
   \<and> invoke (answering_as (Some ''text/plain'') (JObj [(''name'', JStr ''a.png'')]))
       (Upload (upload_uploadFile ''a.png''))
     = Inr (JResponse (Response True (Some ''text/plain'') ''http://localhost:8080/api/upload''
              (Inr (JObj [(''name'', JStr ''a.png'')]))))
   \<and> invoke (answering_as (Some ''Application/JSON'') (JObj [(''name'', JStr ''a.png'')]))
       (Upload (upload_uploadFile ''a.png''))
     = Inr (JResponse (Response True (Some ''Application/JSON'')
              ''http://localhost:8080/api/upload'' (Inr (JObj [(''name'', JStr ''a.png'')]))))
   \<and> invoke (answering_as None (JObj [(''name'', JStr ''a.png'')]))
       (Upload (upload_uploadFile ''a.png''))
     = Inr (JResponse (Response True None ''http://localhost:8080/api/upload''
              (Inr (JObj [(''name'', JStr ''a.png'')]))))"
  by (simp add: invoke_def underlying_def fetchAPI_def answering_as_def API_URL_def
      handle_response_def is_json_def member_def object_prototype_def or_undefined_def
      invalid_response_def)

subsection \<open>C9: joining a community\<close>

text \<open>
  C9. \<open>communities.joinCommunity\<close> always returns a value; when its request fails the
  value is \<open>{ success: true, message: "Successfully joined community" }\<close>, the very value
  it returns when a backend answers the join with that object.
\<close>

theorem joinCommunity_never_fails:
  "(\<exists>v. invoke rt (Communities (communities_joinCommunity communityId invitedBy)) = Inr v)
   \<and> (underlying rt (Communities (communities_joinCommunity communityId invitedBy)) = Inl e
      \<longrightarrow> invoke rt (Communities (communities_joinCommunity communityId invitedBy))
            = Inr (JObj [(''success'', JBool True),
                         (''message'', JStr ''Successfully joined community'')]))
   \<and> invoke offline (Communities (communities_joinCommunity communityId invitedBy))
       = invoke (answering True joined)
           (Communities (communities_joinCommunity communityId invitedBy))"
  by (auto simp: invoke_def offline_underlying answering_underlying joined_def split: sum.splits)

theorem joinCommunity_never_fails_witness:
  "invoke offline (Communities (communities_joinCommunity ''42'' JNull))
     = Inr (JObj [(''success'', JBool True), (''message'', JStr ''Successfully joined community'')])"
  using joinCommunity_never_fails [of offline "''42''" JNull failed_to_fetch]
  by (simp add: offline_underlying)

subsection \<open>C10: one community\<close>

text \<open>
  C10. When the request of \<open>communities.getCommunity\<close> fails: if \<^verbatim>\<open>parseInt\<close> reads from
  the community id the \<open>id\<close> of a mock community, the method returns that mock record
  with \<open>members\<close> set to the empty array; if it reads the id of none (or no number), the
  method throws the failure it caught. The ids of the mock communities are 1 to 5.
\<close>

theorem getCommunity_fallback:
  "(underlying rt (Communities (communities_getCommunity communityId)) = Inl e \<longrightarrow>
     (\<forall>c \<in> set mockCommunities.
        (\<exists>n. parseInt communityId = Some n \<and> member c ''id'' = JNum n) \<longrightarrow>
          invoke rt (Communities (communities_getCommunity communityId))
            = Inr (JObj (AList.update ''members'' (JArr []) c))
          \<and> member (AList.update ''members'' (JArr []) c) ''members'' = JArr [])
     \<and> ((\<forall>c \<in> set mockCommunities.
           \<not> (\<exists>n. parseInt communityId = Some n \<and> member c ''id'' = JNum n)) \<longrightarrow>
          invoke rt (Communities (communities_getCommunity communityId)) = Inl e))
   \<and> map (\<lambda>c. member c ''id'') mockCommunities = map JNum [1, 2, 3, 4, 5]"
proof (intro impI conjI ballI)
  fix c
  assume u: "underlying rt (Communities (communities_getCommunity communityId)) = Inl e"
    and c: "c \<in> set mockCommunities"
    and "\<exists>n. parseInt communityId = Some n \<and> member c ''id'' = JNum n"
  then have "find_mock_community communityId = Some c"
    using find_mock_community_Some by blast
  with u show "invoke rt (Communities (communities_getCommunity communityId))
                 = Inr (JObj (AList.update ''members'' (JArr []) c))"
    by (simp add: invoke_def)
  show "member (AList.update ''members'' (JArr []) c) ''members'' = JArr []"
    by (simp add: member_def update_conv')
next
  assume u: "underlying rt (Communities (communities_getCommunity communityId)) = Inl e"
    and "\<forall>c \<in> set mockCommunities.
           \<not> (\<exists>n. parseInt communityId = Some n \<and> member c ''id'' = JNum n)"
  then have "find_mock_community communityId = None"
    using find_mock_community_None by blast
  with u show "invoke rt (Communities (communities_getCommunity communityId)) = Inl e"
    by (simp add: invoke_def)
next
  show "map (\<lambda>c. member c ''id'') mockCommunities = map JNum [1, 2, 3, 4, 5]"
    by (rule mock_ids)
qed

text \<open>
  Without a network: the string \<open>1\<close> gets the first mock community, the string \<open>6\<close> the
  failure of \<^verbatim>\<open>fetch\<close>.
\<close>

theorem getCommunity_fallback_witness:
  "parseInt ''1'' = Some 1
   \<and> invoke offline (Communities (communities_getCommunity ''1''))
       = Inr (JObj (mockCommunities ! 0))
   \<and> parseInt ''6'' = Some 6
   \<and> invoke offline (Communities (communities_getCommunity ''6'')) = Inl failed_to_fetch"
proof -
  have p1: "parseInt ''1'' = Some 1" and p6: "parseInt ''6'' = Some 6" by code_simp+
  show ?thesis
    using getCommunity_fallback [of offline "''1''" failed_to_fetch]
      getCommunity_fallback [of offline "''6''" failed_to_fetch]
    by (simp add: offline_underlying p1 p6 mockCommunities_def member_def)
qed

end
